theory Spec2Isabelle
  imports Main "HOL-Library.Word"
begin

section \<open>Data of the script\<close>

text \<open>
  The script \<^verbatim>\<open>direct_ifc_query.ts\<close> wires a scene, an IFC loader, a finder with one query
  group of two queries, a hider and a small panel. The objects it creates and mutates are
  modelled below; the libraries it calls are parameters of the model (record \<open>env\<close>).
\<close>

type_synonym byte = "8 word"

text \<open>
  A \<^verbatim>\<open>RegExp\<close> object is kept by the pattern text it was built from. \<^verbatim>\<open>.source\<close> of an empty
  pattern is \<^verbatim>\<open>(?:)\<close>; the escaping of \<^verbatim>\<open>/\<close> and of line terminators in \<^verbatim>\<open>.source\<close> is left
  out (the two literals of the script contain neither).
\<close>

datatype RegExp = RegExp (pattern: string)

definition source :: "RegExp \<Rightarrow> string" where
  "source r = (if pattern r = [] then ''(?:)'' else pattern r)"

text \<open>
  \<^verbatim>\<open>OBC.IfcCategoryRule\<close> is \<^verbatim>\<open>{type: "category", value}\<close> and \<^verbatim>\<open>OBC.IfcPropertyRule\<close> is
  \<^verbatim>\<open>{type: "property", name, value}\<close>: a tagged union.
\<close>

datatype IfcFinderRule =
    IfcCategoryRule (rule_value: RegExp)
  | IfcPropertyRule (rule_name: RegExp) (rule_value: RegExp)

text \<open>The assignment \<^verbatim>\<open>rule.value = r\<close>.\<close>

fun set_rule_value :: "RegExp \<Rightarrow> IfcFinderRule \<Rightarrow> IfcFinderRule" where
  "set_rule_value r (IfcCategoryRule _) = IfcCategoryRule r"
| "set_rule_value r (IfcPropertyRule n _) = IfcPropertyRule n r"

text \<open>
  The two rule objects and the two query objects live on the heap and are shared by
  reference: a query's \<^verbatim>\<open>rules\<close> array holds references to rule objects, the group holds
  references to queries.
\<close>

datatype rule_ref = CategoryRule_ref | PropertyRule_ref

datatype query_ref = BasicQuery_ref | PropertyQuery_ref

datatype query_kind = IfcBasicQuery | IfcPropertyQuery

text \<open>
  A query object: the fields the script passes to the constructor, and the part private to
  the library (\<open>cache\<close>: whatever the finder keeps between updates).
\<close>

record 'c IfcFinderQuery =
  kind :: query_kind
  name :: string
  inclusive :: bool
  rules :: "rule_ref list"
  cache :: 'c

text \<open>The objects owned by the finder: both queries and the query group.\<close>

record ('c, 'g) IfcFinder =
  basicQuery :: "'c IfcFinderQuery"
  propertyQuery :: "'c IfcFinderQuery"
  queryGroup :: 'g

text \<open>
  \<^verbatim>\<open>FRAGS.FragmentIdMap\<close>: an object from fragment identifiers to sets of express
  identifiers. \<^verbatim>\<open>Object.keys\<close> lists its keys.
\<close>

type_synonym FragmentIdMap = "(string \<times> nat set) list"

definition Object_keys :: "FragmentIdMap \<Rightarrow> string list" where
  "Object_keys items = map fst items"

record File =
  file_bits :: "byte list"
  file_name :: string

record FragmentsGroup =
  uuid :: string

datatype error =
    NetworkError
  | LoadError
  | SyntaxError string
  | UpdateRejected

text \<open>The calls of the script to its collaborators, in the order they are made.\<close>

datatype event =
    Fetch string
  | IfcLoad "byte list"
  | QueryClear query_ref
  | GroupUpdate string File
  | ConsoleLog FragmentIdMap
  | Alert string
  | HiderSet bool "FragmentIdMap option"

text \<open>An element of the scene: a fragment identifier and an express identifier.\<close>

type_synonym element = "string \<times> nat"

section \<open>The collaborators\<close>

text \<open>
  None of \<^verbatim>\<open>@thatopen/components\<close>, \<^verbatim>\<open>web-ifc\<close>, the network or the pattern grammar of the
  language is part of the repository. Each is a field of \<open>env\<close>:
  \<^item> \<open>fetch\<close>: the response body of an HTTP GET, or a failure;
  \<^item> \<open>ifc_load\<close>: \<^verbatim>\<open>fragmentIfcLoader.load(buffer)\<close>: the model, and the content of the buffer
    afterwards (\<^verbatim>\<open>buffer\<close> is a view of the fetched \<^verbatim>\<open>ArrayBuffer\<close>, so a write of the
    loader would show in \<^verbatim>\<open>data\<close>);
  \<^item> \<open>scene_add\<close>: the elements visible once the model is added to the scene;
  \<^item> \<open>valid_pattern\<close>: the strings that parse as a pattern;
  \<^item> \<open>finder_create\<close>, \<open>query_init\<close>: the fresh group and the fresh private part of a query;
  \<^item> \<open>group_add\<close>, \<open>query_clear\<close>, \<open>group_update\<close>, \<open>group_items\<close>: the methods of the
    group and of a query; \<open>group_update\<close> reads the two rule objects and may change every
    object of the finder, and may reject;
  \<^item> \<open>hider_set\<close>: \<^verbatim>\<open>hider.set(visible, items?)\<close> on the set of visible elements.
\<close>

record ('c, 'g) env =
  fetch :: "string \<Rightarrow> error + byte list"
  ifc_load :: "byte list \<Rightarrow> error + (FragmentsGroup \<times> byte list)"
  scene_add :: "FragmentsGroup \<Rightarrow> element set"
  valid_pattern :: "string \<Rightarrow> bool"
  finder_create :: 'g
  query_init :: 'c
  group_add :: "query_ref \<Rightarrow> 'g \<Rightarrow> 'g"
  query_clear :: "'c IfcFinderQuery \<Rightarrow> 'c IfcFinderQuery"
  group_update :: "string \<Rightarrow> File \<Rightarrow> IfcFinderRule \<times> IfcFinderRule \<Rightarrow>
                   ('c, 'g) IfcFinder \<Rightarrow> error option \<times> ('c, 'g) IfcFinder"
  group_items :: "('c, 'g) IfcFinder \<Rightarrow> FragmentIdMap"
  hider_set :: "bool \<Rightarrow> FragmentIdMap option \<Rightarrow> element set \<Rightarrow> element set"

text \<open>\<^verbatim>\<open>new RegExp(s)\<close> throws a \<^verbatim>\<open>SyntaxError\<close> exactly when \<open>s\<close> is not a pattern.\<close>

definition RegExp_new :: "('c, 'g) env \<Rightarrow> string \<Rightarrow> error + RegExp" where
  "RegExp_new env s = (if valid_pattern env s then Inr (RegExp s) else Inl (SyntaxError s))"

section \<open>The state of the page\<close>

record ('c, 'g) app =
  model :: FragmentsGroup
  ifcFile :: File
  categoryRule :: IfcFinderRule
  propertyRule :: IfcFinderRule
  finder :: "('c, 'g) IfcFinder"
  categoryInput :: string
  propertyInput :: string
  visible :: "element set"
  panel_classList :: "string list"
  trace :: "event list"

definition emit :: "event \<Rightarrow> ('c, 'g) app \<Rightarrow> ('c, 'g) app" where
  "emit e s = s\<lparr>trace := trace s @ [e]\<rparr>"

definition ifc_url :: string where
  "ifc_url = ''https://thatopen.github.io/engine_components/resources/small.ifc''"

section \<open>Startup\<close>

text \<open>
  The top level of the module, from the creation of the query group to the first isolation
  (lines 125 to 206) and the creation of the two text inputs and of the panel (lines 237 to
  286). A rejected \<^verbatim>\<open>await\<close> ends the module: nothing after it runs.
\<close>

definition startup :: "('c, 'g) env \<Rightarrow> error + ('c, 'g) app" where
  "startup env =
    (let g0 = finder_create env in
     case fetch env ifc_url of
       Inl e \<Rightarrow> Inl e
     | Inr data \<Rightarrow>
        (case ifc_load env data of
           Inl e \<Rightarrow> Inl e
         | Inr (m, data') \<Rightarrow>
            (let vis0 = scene_add env m;
                 file = \<lparr>file_bits = data', file_name = ''example''\<rparr>;
                 bq0 = \<lparr>kind = IfcBasicQuery, name = ''category'', inclusive = False,
                        rules = [], cache = query_init env\<rparr>;
                 g1 = group_add env BasicQuery_ref g0;
                 cr = IfcCategoryRule (RegExp ''IfcWallStandardCase'');
                 bq = bq0\<lparr>rules := rules bq0 @ [CategoryRule_ref]\<rparr>;
                 pr = IfcPropertyRule (RegExp ''.*'') (RegExp ''yeso'');
                 pq = \<lparr>kind = IfcPropertyQuery, name = ''property'', inclusive = False,
                       rules = [PropertyRule_ref], cache = query_init env\<rparr>;
                 g2 = group_add env PropertyQuery_ref g1;
                 (err, fin) = group_update env (uuid m) file (cr, pr)
                                \<lparr>basicQuery = bq, propertyQuery = pq, queryGroup = g2\<rparr>;
                 tr = [Fetch ifc_url, IfcLoad data, GroupUpdate (uuid m) file]
             in case err of
                  Some e \<Rightarrow> Inl e
                | None \<Rightarrow>
                   (let items = group_items env fin;
                        vis1 = hider_set env False None vis0;
                        vis2 = hider_set env True (Some items) vis1
                    in Inr \<lparr>model = m, ifcFile = file, categoryRule = cr, propertyRule = pr,
                            finder = fin,
                            categoryInput = source (rule_value cr),
                            propertyInput = source (rule_value pr),
                            visible = vis2,
                            panel_classList = [''options-menu''],
                            trace = tr @ [HiderSet False None, HiderSet True (Some items)]\<rparr>))))"

section \<open>The update button\<close>

text \<open>
  \<^verbatim>\<open>updateFinder\<close> (lines 249 to 263). It returns the state it leaves behind and the
  exception or rejection that ended it, if any: the click handler does not catch it, and
  the page goes on with what was written until then.
\<close>

definition updateFinder :: "('c, 'g) env \<Rightarrow> ('c, 'g) app \<Rightarrow> error option \<times> ('c, 'g) app" where
  "updateFinder env s0 =
    (let s1 = emit (QueryClear BasicQuery_ref)
                (s0\<lparr>finder := (finder s0)\<lparr>basicQuery := query_clear env (basicQuery (finder s0))\<rparr>\<rparr>);
         s2 = emit (QueryClear PropertyQuery_ref)
                (s1\<lparr>finder := (finder s1)\<lparr>propertyQuery := query_clear env (propertyQuery (finder s1))\<rparr>\<rparr>)
     in case RegExp_new env (categoryInput s2) of
          Inl e \<Rightarrow> (Some e, s2)
        | Inr r1 \<Rightarrow>
           (let s3 = s2\<lparr>categoryRule := set_rule_value r1 (categoryRule s2)\<rparr>
            in case RegExp_new env (propertyInput s3) of
                 Inl e \<Rightarrow> (Some e, s3)
               | Inr r2 \<Rightarrow>
                  (let s4 = s3\<lparr>propertyRule := set_rule_value r2 (propertyRule s3)\<rparr>;
                       (err, fin) = group_update env (uuid (model s4)) (ifcFile s4)
                                      (categoryRule s4, propertyRule s4) (finder s4);
                       s5 = emit (GroupUpdate (uuid (model s4)) (ifcFile s4)) (s4\<lparr>finder := fin\<rparr>)
                   in case err of
                        Some e \<Rightarrow> (Some e, s5)
                      | None \<Rightarrow>
                         (let items = group_items env (finder s5);
                              s6 = emit (ConsoleLog items) s5
                          in if length (Object_keys items) = 0
                             then (None, emit (Alert ''No items found!'') s6)
                             else
                              (let s7 = emit (HiderSet False None)
                                          (s6\<lparr>visible := hider_set env False None (visible s6)\<rparr>);
                                   s8 = emit (HiderSet True (Some items))
                                          (s7\<lparr>visible := hider_set env True (Some items) (visible s7)\<rparr>)
                               in (None, s8))))))"

section \<open>The menu toggler\<close>

text \<open>
  \<^verbatim>\<open>classList\<close> is a \<^verbatim>\<open>DOMTokenList\<close>: an ordered list of distinct tokens. \<^verbatim>\<open>add\<close> appends a
  token that is absent, \<^verbatim>\<open>remove\<close> deletes it, \<^verbatim>\<open>contains\<close> tests membership.
\<close>

definition classList_contains :: "string list \<Rightarrow> string \<Rightarrow> bool" where
  "classList_contains cs t = (t \<in> set cs)"

definition classList_add :: "string list \<Rightarrow> string \<Rightarrow> string list" where
  "classList_add cs t = (if t \<in> set cs then cs else cs @ [t])"

definition classList_remove :: "string list \<Rightarrow> string \<Rightarrow> string list" where
  "classList_remove cs t = filter (\<lambda>c. c \<noteq> t) cs"

text \<open>The click handler of the phone-menu toggler (lines 295 to 301).\<close>

definition toggler_click :: "('c, 'g) app \<Rightarrow> ('c, 'g) app" where
  "toggler_click s =
    (if classList_contains (panel_classList s) ''options-menu-visible''
     then s\<lparr>panel_classList := classList_remove (panel_classList s) ''options-menu-visible''\<rparr>
     else s\<lparr>panel_classList := classList_add (panel_classList s) ''options-menu-visible''\<rparr>)"

section \<open>What the user does\<close>

text \<open>
  The user types into a text field, clicks the update button or clicks the toggler. The
  model runs the handlers one after the other, each to its end. A click made while an
  earlier \<^verbatim>\<open>updateFinder\<close> still awaits its update, which the script does not guard
  against, is not covered.
\<close>

datatype ui_event =
    TypeCategory string
  | TypeProperty string
  | ClickUpdate
  | ClickToggler

fun handle :: "('c, 'g) env \<Rightarrow> ('c, 'g) app \<Rightarrow> ui_event \<Rightarrow> ('c, 'g) app" where
  "handle env s (TypeCategory t) = s\<lparr>categoryInput := t\<rparr>"
| "handle env s (TypeProperty t) = s\<lparr>propertyInput := t\<rparr>"
| "handle env s ClickUpdate = snd (updateFinder env s)"
| "handle env s ClickToggler = toggler_click s"

definition session :: "('c, 'g) env \<Rightarrow> ui_event list \<Rightarrow> error + ('c, 'g) app" where
  "session env evs =
    (case startup env of Inl e \<Rightarrow> Inl e | Inr s \<Rightarrow> Inr (foldl (handle env) s evs))"

section \<open>Reading a trace\<close>

fun is_Fetch :: "event \<Rightarrow> bool" where
  "is_Fetch (Fetch u) = True"
| "is_Fetch _ = False"

text \<open>
  A loader that only reads the buffer it is given: the bytes behind \<^verbatim>\<open>data\<close> are the same
  before and after \<^verbatim>\<open>fragmentIfcLoader.load(buffer)\<close>.
\<close>

definition loader_reads_only :: "('c, 'g) env \<Rightarrow> bool" where
  "loader_reads_only env = (\<forall>bs m bs'. ifc_load env bs = Inr (m, bs') \<longrightarrow> bs' = bs)"

section \<open>A small environment to run the script in\<close>

text \<open>
  A two-element scene: a wall in fragment \<open>wall\<close> and a plastered slab in fragment
  \<open>slab\<close>. The finder of this environment answers \<open>walls\<close> to the category pattern
  \<^verbatim>\<open>IfcWallStandardCase\<close> and \<open>plaster\<close> to the property pattern \<^verbatim>\<open>yeso\<close>, nothing to any
  other pattern, and joins the answers of its queries; its hider shows or hides the
  elements of a map, or all of them when no map is given; its only malformed pattern is
  a lone opening parenthesis.
\<close>

definition elements_of :: "FragmentIdMap \<Rightarrow> element set" where
  "elements_of items = (\<Union>(f, ids) \<in> set items. Pair f ` ids)"

definition demo_env ::
    "FragmentIdMap \<Rightarrow> FragmentIdMap \<Rightarrow> (FragmentIdMap, query_ref list) env" where
  "demo_env walls plaster =
    \<lparr>fetch = (\<lambda>u. if u = ifc_url then Inr [0x49, 0x53, 0x4F] else Inl NetworkError),
     ifc_load = (\<lambda>bs. Inr (\<lparr>uuid = ''m1''\<rparr>, bs)),
     scene_add = (\<lambda>m. {(''wall'', 1), (''slab'', 2)}),
     valid_pattern = (\<lambda>s. s \<noteq> ''(''),
     finder_create = [],
     query_init = [],
     group_add = (\<lambda>q g. g @ [q]),
     query_clear = (\<lambda>q. q\<lparr>cache := []\<rparr>),
     group_update = (\<lambda>u f (cr, pr) fin.
        (None,
         fin\<lparr>basicQuery := (basicQuery fin)\<lparr>cache :=
                 (if pattern (rule_value cr) = ''IfcWallStandardCase'' then walls else [])\<rparr>,
             propertyQuery := (propertyQuery fin)\<lparr>cache :=
                 (if pattern (rule_value pr) = ''yeso'' then plaster else [])\<rparr>\<rparr>)),
     group_items = (\<lambda>fin. cache (basicQuery fin) @ cache (propertyQuery fin)),
     hider_set = (\<lambda>v items vis. case items of
                     None \<Rightarrow> (if v then {(''wall'', 1), (''slab'', 2)} else {})
                   | Some m \<Rightarrow> (if v then vis \<union> elements_of m else vis - elements_of m))\<rparr>"

abbreviation demo :: "(FragmentIdMap, query_ref list) env" where
  "demo \<equiv> demo_env [(''wall'', {1})] [(''slab'', {2})]"

text \<open>The page of that environment with the two text fields holding \<open>cat\<close> and \<open>prop\<close>.\<close>

definition demo_page :: "string \<Rightarrow> string \<Rightarrow> (FragmentIdMap, query_ref list) app" where
  "demo_page cat prop =
    \<lparr>model = \<lparr>uuid = ''m1''\<rparr>,
     ifcFile = \<lparr>file_bits = [0x49, 0x53, 0x4F], file_name = ''example''\<rparr>,
     categoryRule = IfcCategoryRule (RegExp ''IfcWallStandardCase''),
     propertyRule = IfcPropertyRule (RegExp ''.*'') (RegExp ''yeso''),
     finder = \<lparr>basicQuery = \<lparr>kind = IfcBasicQuery, name = ''category'', inclusive = False,
                              rules = [CategoryRule_ref], cache = [(''wall'', {1})]\<rparr>,
               propertyQuery = \<lparr>kind = IfcPropertyQuery, name = ''property'', inclusive = False,
                                 rules = [PropertyRule_ref], cache = [(''slab'', {2})]\<rparr>,
               queryGroup = [BasicQuery_ref, PropertyQuery_ref]\<rparr>,
     categoryInput = cat,
     propertyInput = prop,
     visible = {(''wall'', 1), (''slab'', 2)},
     panel_classList = [''options-menu''],
     trace = []\<rparr>"

section \<open>An environment that keeps the files it is given\<close>

text \<open>
  The group of this environment is the list of the files its \<^verbatim>\<open>update\<close> has received, in
  order; its loader leaves \<open>w bs\<close> in a buffer that held \<open>bs\<close>. Every pattern is
  well-formed, nothing ever matches, and the hider does nothing.
\<close>

definition recording_env :: "(byte list \<Rightarrow> byte list) \<Rightarrow> (unit, File list) env" where
  "recording_env w =
    \<lparr>fetch = (\<lambda>u. if u = ifc_url then Inr [0x49, 0x53, 0x4F] else Inl NetworkError),
     ifc_load = (\<lambda>bs. Inr (\<lparr>uuid = ''m1''\<rparr>, w bs)),
     scene_add = (\<lambda>m. {}),
     valid_pattern = (\<lambda>s. True),
     finder_create = [],
     query_init = (),
     group_add = (\<lambda>q g. g),
     query_clear = (\<lambda>q. q),
     group_update = (\<lambda>u f r fin. (None, fin\<lparr>queryGroup := queryGroup fin @ [f]\<rparr>)),
     group_items = (\<lambda>fin. []),
     hider_set = (\<lambda>v items vis. vis)\<rparr>"

text \<open>A loader that writes into its buffer: it overwrites the first byte.\<close>

fun overwrite_first :: "byte list \<Rightarrow> byte list" where
  "overwrite_first [] = []"
| "overwrite_first (b # bs) = 0x58 # bs"

definition files_received :: "error + (unit, File list) app \<Rightarrow> File list" where
  "files_received r = (case r of Inl e \<Rightarrow> [] | Inr s \<Rightarrow> queryGroup (finder s))"

section \<open>The update button: the guard on an empty result\<close>

text \<open>
  Claim C1. When \<^verbatim>\<open>updateFinder\<close> gets a result from the group and the result mapping is
  empty, it alerts and calls the hider not at all: the calls of the run are the two
  clears, the update, the log and the alert, and the visible elements are the ones before.
  When the mapping is not empty there is no alert, and the run ends with
  \<^verbatim>\<open>hider.set(false)\<close> and \<^verbatim>\<open>hider.set(true, items)\<close>, applied in this order.
\<close>

theorem updateFinder_no_items_guard:
  assumes "updateFinder env s = (None, s')"
  shows "(group_items env (finder s') = [] \<longrightarrow>
           trace s' = trace s @ [QueryClear BasicQuery_ref, QueryClear PropertyQuery_ref,
                                 GroupUpdate (uuid (model s)) (ifcFile s),
                                 ConsoleLog [], Alert ''No items found!''] \<and>
           visible s' = visible s) \<and>
         (group_items env (finder s') \<noteq> [] \<longrightarrow>
           trace s' = trace s @ [QueryClear BasicQuery_ref, QueryClear PropertyQuery_ref,
                                 GroupUpdate (uuid (model s)) (ifcFile s),
                                 ConsoleLog (group_items env (finder s')),
                                 HiderSet False None,
                                 HiderSet True (Some (group_items env (finder s')))] \<and>
           visible s' = hider_set env True (Some (group_items env (finder s')))
                          (hider_set env False None (visible s)))"
  using assms
  by (auto simp: updateFinder_def Let_def emit_def Object_keys_def
           split: sum.splits option.splits prod.splits if_splits)

theorem updateFinder_no_items_guard_witness:
  "fst (updateFinder demo (demo_page ''IfcDoor'' ''madera'')) = None \<and>
   group_items demo (finder (snd (updateFinder demo (demo_page ''IfcDoor'' ''madera'')))) = [] \<and>
   trace (snd (updateFinder demo (demo_page ''IfcDoor'' ''madera''))) =
     [QueryClear BasicQuery_ref, QueryClear PropertyQuery_ref,
      GroupUpdate ''m1'' \<lparr>file_bits = [0x49, 0x53, 0x4F], file_name = ''example''\<rparr>,
      ConsoleLog [], Alert ''No items found!''] \<and>
   visible (snd (updateFinder demo (demo_page ''IfcDoor'' ''madera''))) =
     {(''wall'', 1), (''slab'', 2)} \<and>
   fst (updateFinder demo (demo_page ''IfcDoor'' ''yeso'')) = None \<and>
   group_items demo (finder (snd (updateFinder demo (demo_page ''IfcDoor'' ''yeso'')))) =
     [(''slab'', {2})] \<and>
   trace (snd (updateFinder demo (demo_page ''IfcDoor'' ''yeso''))) =
     [QueryClear BasicQuery_ref, QueryClear PropertyQuery_ref,
      GroupUpdate ''m1'' \<lparr>file_bits = [0x49, 0x53, 0x4F], file_name = ''example''\<rparr>,
      ConsoleLog [(''slab'', {2})], HiderSet False None, HiderSet True (Some [(''slab'', {2})])] \<and>
   visible (snd (updateFinder demo (demo_page ''IfcDoor'' ''yeso''))) = {(''slab'', 2)}"
proof -
  let ?a = "demo_page ''IfcDoor'' ''madera''" and ?b = "demo_page ''IfcDoor'' ''yeso''"
  note defs = updateFinder_def demo_env_def demo_page_def RegExp_new_def emit_def Let_def
    Object_keys_def
  define sa where "sa = snd (updateFinder demo ?a)"
  define sb where "sb = snd (updateFinder demo ?b)"
  have ra: "updateFinder demo ?a = (None, sa)"
    unfolding sa_def by (simp add: defs)
  have rb: "updateFinder demo ?b = (None, sb)"
    unfolding sb_def by (simp add: defs)
  have ia: "group_items demo (finder sa) = []"
    unfolding sa_def by (simp add: defs)
  have ib: "group_items demo (finder sb) = [(''slab'', {2})]"
    unfolding sb_def by (simp add: defs)
  have va: "visible ?a = {(''wall'', 1), (''slab'', 2)}" "trace ?a = []"
    "uuid (model ?a) = ''m1''"
    "ifcFile ?a = \<lparr>file_bits = [0x49, 0x53, 0x4F], file_name = ''example''\<rparr>"
    by (simp_all add: demo_page_def)
  have vb: "visible ?b = {(''wall'', 1), (''slab'', 2)}" "trace ?b = []"
    "uuid (model ?b) = ''m1''"
    "ifcFile ?b = \<lparr>file_bits = [0x49, 0x53, 0x4F], file_name = ''example''\<rparr>"
    by (simp_all add: demo_page_def)
  have h: "hider_set demo True (Some [(''slab'', {2})])
             (hider_set demo False None {(''wall'', 1), (''slab'', 2)}) = {(''slab'', 2)}"
    by (simp add: demo_env_def elements_of_def)
  from updateFinder_no_items_guard [OF ra] ia
  have ta: "trace sa = trace ?a @ [QueryClear BasicQuery_ref, QueryClear PropertyQuery_ref,
                                 GroupUpdate (uuid (model ?a)) (ifcFile ?a),
                                 ConsoleLog [], Alert ''No items found!'']"
    and wa: "visible sa = visible ?a"
    by blast+
  from updateFinder_no_items_guard [OF rb] ib
  have tb: "trace sb = trace ?b @ [QueryClear BasicQuery_ref, QueryClear PropertyQuery_ref,
                                 GroupUpdate (uuid (model ?b)) (ifcFile ?b),
                                 ConsoleLog [(''slab'', {2})], HiderSet False None,
                                 HiderSet True (Some [(''slab'', {2})])]"
    and wb: "visible sb = hider_set demo True (Some [(''slab'', {2})])
                            (hider_set demo False None (visible ?b))"
    by auto
  have fa: "fst (updateFinder demo ?a) = None" and fb: "fst (updateFinder demo ?b) = None"
    using ra rb by simp_all
  show ?thesis
    unfolding sa_def [symmetric] sb_def [symmetric]
    using fa fb ia ib ta tb wa wb va vb h by simp
qed

section \<open>The menu toggler: two clicks\<close>

text \<open>
  Claim C10. A click of the toggler flips whether the panel has the class
  \<^verbatim>\<open>options-menu-visible\<close>: it removes the class when present and adds it when absent. Two
  clicks in a row give back the membership the panel started with, for that class and for
  every other class of the panel.
\<close>

theorem toggler_click_involution:
  "classList_contains (panel_classList (toggler_click s)) ''options-menu-visible'' =
     (\<not> classList_contains (panel_classList s) ''options-menu-visible'') \<and>
   classList_contains (panel_classList (toggler_click (toggler_click s))) ''options-menu-visible'' =
     classList_contains (panel_classList s) ''options-menu-visible'' \<and>
   set (panel_classList (toggler_click (toggler_click s))) = set (panel_classList s)"
  by (auto simp: toggler_click_def classList_contains_def classList_add_def classList_remove_def)

theorem toggler_click_involution_witness:
  "panel_classList (toggler_click (demo_page ''a'' ''b'')) =
     [''options-menu'', ''options-menu-visible''] \<and>
   panel_classList (toggler_click (toggler_click (demo_page ''a'' ''b''))) = [''options-menu''] \<and>
   classList_contains (panel_classList (toggler_click (toggler_click (demo_page ''a'' ''b''))))
     ''options-menu-visible'' =
   classList_contains (panel_classList (demo_page ''a'' ''b'')) ''options-menu-visible''"
  using toggler_click_involution [of "demo_page ''a'' ''b''"]
  by (simp add: toggler_click_def classList_contains_def classList_add_def classList_remove_def
                demo_page_def)

section \<open>The update button: malformed patterns\<close>

text \<open>
  Claim C5. A string of the category or of the property field that is not a well-formed
  pattern makes \<^verbatim>\<open>updateFinder\<close> fail with a \<^verbatim>\<open>SyntaxError\<close> where the pattern is built:
  the only calls of the run are the two clears, and \<^verbatim>\<open>queryGroup.update\<close> is not called.
  When both strings are well-formed, both constructions return a pattern and the run goes
  on to call \<^verbatim>\<open>queryGroup.update\<close>.
\<close>

theorem updateFinder_malformed_pattern:
  "(\<not> valid_pattern env (categoryInput s) \<longrightarrow>
      fst (updateFinder env s) = Some (SyntaxError (categoryInput s)) \<and>
      trace (snd (updateFinder env s)) =
        trace s @ [QueryClear BasicQuery_ref, QueryClear PropertyQuery_ref]) \<and>
   (valid_pattern env (categoryInput s) \<and> \<not> valid_pattern env (propertyInput s) \<longrightarrow>
      fst (updateFinder env s) = Some (SyntaxError (propertyInput s)) \<and>
      trace (snd (updateFinder env s)) =
        trace s @ [QueryClear BasicQuery_ref, QueryClear PropertyQuery_ref]) \<and>
   (valid_pattern env (categoryInput s) \<and> valid_pattern env (propertyInput s) \<longrightarrow>
      RegExp_new env (categoryInput s) = Inr (RegExp (categoryInput s)) \<and>
      RegExp_new env (propertyInput s) = Inr (RegExp (propertyInput s)) \<and>
      take 3 (drop (length (trace s)) (trace (snd (updateFinder env s)))) =
        [QueryClear BasicQuery_ref, QueryClear PropertyQuery_ref,
         GroupUpdate (uuid (model s)) (ifcFile s)])"
  by (auto simp: updateFinder_def RegExp_new_def Let_def emit_def
           split: sum.splits option.splits prod.splits if_splits)

theorem updateFinder_malformed_pattern_witness:
  "fst (updateFinder demo (demo_page ''('' ''yeso'')) = Some (SyntaxError ''('') \<and>
   trace (snd (updateFinder demo (demo_page ''('' ''yeso''))) =
     [QueryClear BasicQuery_ref, QueryClear PropertyQuery_ref] \<and>
   fst (updateFinder demo (demo_page ''IfcDoor'' ''('')) = Some (SyntaxError ''('') \<and>
   trace (snd (updateFinder demo (demo_page ''IfcDoor'' ''(''))) =
     [QueryClear BasicQuery_ref, QueryClear PropertyQuery_ref] \<and>
   RegExp_new demo ''IfcDoor'' = Inr (RegExp ''IfcDoor'') \<and>
   RegExp_new demo ''yeso'' = Inr (RegExp ''yeso'') \<and>
   take 3 (trace (snd (updateFinder demo (demo_page ''IfcDoor'' ''yeso'')))) =
     [QueryClear BasicQuery_ref, QueryClear PropertyQuery_ref,
      GroupUpdate ''m1'' \<lparr>file_bits = [0x49, 0x53, 0x4F], file_name = ''example''\<rparr>]"
proof -
  have v: "\<not> valid_pattern demo ''(''" "valid_pattern demo ''IfcDoor''"
    "valid_pattern demo ''yeso''"
    by (simp_all add: demo_env_def)
  have p: "categoryInput (demo_page c q) = c" "propertyInput (demo_page c q) = q"
    "trace (demo_page c q) = []" "uuid (model (demo_page c q)) = ''m1''"
    "ifcFile (demo_page c q) = \<lparr>file_bits = [0x49, 0x53, 0x4F], file_name = ''example''\<rparr>"
    for c q
    by (simp_all add: demo_page_def)
  from updateFinder_malformed_pattern [of demo "demo_page ''('' ''yeso''"]
       updateFinder_malformed_pattern [of demo "demo_page ''IfcDoor'' ''(''"]
       updateFinder_malformed_pattern [of demo "demo_page ''IfcDoor'' ''yeso''"]
  show ?thesis
    using v by (simp add: p)
qed

section \<open>The update button: what an empty result leaves behind\<close>

text \<open>
  Claim C9. A run of \<^verbatim>\<open>updateFinder\<close> that ends in the alert has changed the query state
  before the check: both queries were cleared and both rule objects hold the patterns built
  from the text fields, the finder is what \<^verbatim>\<open>queryGroup.update\<close> made of the cleared queries
  under the new rules, and only the visible elements are as before.
\<close>

theorem updateFinder_zero_match_mutates_rules:
  assumes "updateFinder env s = (None, s')" and "group_items env (finder s') = []"
  shows "categoryRule s' = set_rule_value (RegExp (categoryInput s)) (categoryRule s) \<and>
         propertyRule s' = set_rule_value (RegExp (propertyInput s)) (propertyRule s) \<and>
         finder s' = snd (group_update env (uuid (model s)) (ifcFile s)
                       (categoryRule s', propertyRule s')
                       ((finder s)\<lparr>basicQuery := query_clear env (basicQuery (finder s)),
                                  propertyQuery := query_clear env (propertyQuery (finder s))\<rparr>)) \<and>
         trace s' = trace s @ [QueryClear BasicQuery_ref, QueryClear PropertyQuery_ref,
                               GroupUpdate (uuid (model s)) (ifcFile s),
                               ConsoleLog [], Alert ''No items found!''] \<and>
         visible s' = visible s"
  using assms
  by (auto simp: updateFinder_def RegExp_new_def Let_def emit_def Object_keys_def
           split: sum.splits option.splits prod.splits if_splits)

theorem updateFinder_zero_match_mutates_rules_witness:
  "fst (updateFinder demo (demo_page ''IfcDoor'' ''madera'')) = None \<and>
   last (trace (snd (updateFinder demo (demo_page ''IfcDoor'' ''madera''))))
     = Alert ''No items found!'' \<and>
   categoryRule (demo_page ''IfcDoor'' ''madera'') = IfcCategoryRule (RegExp ''IfcWallStandardCase'') \<and>
   categoryRule (snd (updateFinder demo (demo_page ''IfcDoor'' ''madera'')))
     = IfcCategoryRule (RegExp ''IfcDoor'') \<and>
   propertyRule (demo_page ''IfcDoor'' ''madera'') = IfcPropertyRule (RegExp ''.*'') (RegExp ''yeso'') \<and>
   propertyRule (snd (updateFinder demo (demo_page ''IfcDoor'' ''madera'')))
     = IfcPropertyRule (RegExp ''.*'') (RegExp ''madera'') \<and>
   cache (basicQuery (finder (demo_page ''IfcDoor'' ''madera''))) = [(''wall'', {1})] \<and>
   cache (basicQuery (finder (snd (updateFinder demo (demo_page ''IfcDoor'' ''madera''))))) = [] \<and>
   visible (snd (updateFinder demo (demo_page ''IfcDoor'' ''madera'')))
     = visible (demo_page ''IfcDoor'' ''madera'')"
proof -
  let ?a = "demo_page ''IfcDoor'' ''madera''"
  note defs = updateFinder_def demo_env_def demo_page_def RegExp_new_def emit_def Let_def
    Object_keys_def
  define sa where "sa = snd (updateFinder demo ?a)"
  have ra: "updateFinder demo ?a = (None, sa)"
    unfolding sa_def by (simp add: defs)
  have ia: "group_items demo (finder sa) = []"
    unfolding sa_def by (simp add: defs)
  have ca: "cache (basicQuery (finder sa)) = []"
    unfolding sa_def by (simp add: defs)
  have p: "categoryInput ?a = ''IfcDoor''" "propertyInput ?a = ''madera''" "trace ?a = []"
    "categoryRule ?a = IfcCategoryRule (RegExp ''IfcWallStandardCase'')"
    "propertyRule ?a = IfcPropertyRule (RegExp ''.*'') (RegExp ''yeso'')"
    "cache (basicQuery (finder ?a)) = [(''wall'', {1})]"
    by (simp_all add: demo_page_def)
  have fa: "fst (updateFinder demo ?a) = None"
    using ra by simp
  from updateFinder_zero_match_mutates_rules [OF ra ia]
  have "categoryRule sa = set_rule_value (RegExp (categoryInput ?a)) (categoryRule ?a)"
    and "propertyRule sa = set_rule_value (RegExp (propertyInput ?a)) (propertyRule ?a)"
    and "trace sa = trace ?a @ [QueryClear BasicQuery_ref, QueryClear PropertyQuery_ref,
                               GroupUpdate (uuid (model ?a)) (ifcFile ?a),
                               ConsoleLog [], Alert ''No items found!'']"
    and "visible sa = visible ?a"
    by blast+
  then show ?thesis
    unfolding sa_def [symmetric]
    using fa ca by (simp add: p)
qed

section \<open>Startup: the first isolation\<close>

text \<open>
  The two queries as the script builds them, before the first update: neither is inclusive,
  the category query holds the category rule and the property query the property rule.
\<close>

lemma startup_queries:
  assumes "startup env = Inr s"
  shows "\<exists>fin0. finder s = snd (group_update env (uuid (model s)) (ifcFile s)
                                (categoryRule s, propertyRule s) fin0) \<and>
           inclusive (basicQuery fin0) = False \<and> rules (basicQuery fin0) = [CategoryRule_ref] \<and>
           inclusive (propertyQuery fin0) = False \<and> rules (propertyQuery fin0) = [PropertyRule_ref] \<and>
           categoryRule s = IfcCategoryRule (RegExp ''IfcWallStandardCase'') \<and>
           propertyRule s = IfcPropertyRule (RegExp ''.*'') (RegExp ''yeso'')"
proof -
  let ?fin0 = "\<lparr>basicQuery = \<lparr>kind = IfcBasicQuery, name = ''category'', inclusive = False,
                               rules = [CategoryRule_ref], cache = query_init env\<rparr>,
                propertyQuery = \<lparr>kind = IfcPropertyQuery, name = ''property'', inclusive = False,
                                  rules = [PropertyRule_ref], cache = query_init env\<rparr>,
                queryGroup = group_add env PropertyQuery_ref
                               (group_add env BasicQuery_ref (finder_create env))\<rparr>"
  from assms have "finder s = snd (group_update env (uuid (model s)) (ifcFile s)
                                (categoryRule s, propertyRule s) ?fin0) \<and>
           categoryRule s = IfcCategoryRule (RegExp ''IfcWallStandardCase'') \<and>
           propertyRule s = IfcPropertyRule (RegExp ''.*'') (RegExp ''yeso'')"
    by (auto simp: startup_def Let_def split: sum.splits option.splits prod.splits)
  then show ?thesis
    by (intro exI [of _ ?fin0]) simp
qed

text \<open>The guard of the update button, for comparison: an empty result changes no visibility.\<close>

lemma updateFinder_empty_keeps_visible:
  assumes "updateFinder env p = (None, p')" and "group_items env (finder p') = []"
  shows "visible p' = visible p \<and> HiderSet False None \<notin> set (drop (length (trace p)) (trace p'))"
  using assms
  by (auto simp: updateFinder_def RegExp_new_def Let_def emit_def Object_keys_def
           split: sum.splits option.splits prod.splits if_splits)

text \<open>
  Claim C8. At startup nothing tests the result of the first update: whenever startup gets
  through, its calls are the fetch, the load, the update, \<^verbatim>\<open>hider.set(false)\<close> and
  \<^verbatim>\<open>hider.set(true, items)\<close>, and there is no alert. With a hider whose \<^verbatim>\<open>set(false)\<close> hides
  every element and whose \<^verbatim>\<open>set(true, {})\<close> shows none, a first update without matches
  leaves no element visible. A run of the update button without matches, on any page,
  leaves the visible elements as they were.
\<close>

theorem startup_isolates_unconditionally:
  assumes "startup env = Inr s"
  shows "(\<exists>data. trace s = [Fetch ifc_url, IfcLoad data, GroupUpdate (uuid (model s)) (ifcFile s),
                    HiderSet False None, HiderSet True (Some (group_items env (finder s)))]) \<and>
         visible s = hider_set env True (Some (group_items env (finder s)))
                       (hider_set env False None (scene_add env (model s))) \<and>
         (group_items env (finder s) = [] \<and>
          (\<forall>vis. hider_set env False None vis = {}) \<and>
          (\<forall>vis. hider_set env True (Some []) vis = vis) \<longrightarrow> visible s = {}) \<and>
         (updateFinder env p = (None, p') \<and> group_items env (finder p') = [] \<longrightarrow>
            visible p' = visible p)"
proof -
  from assms have "(\<exists>data. trace s = [Fetch ifc_url, IfcLoad data,
                    GroupUpdate (uuid (model s)) (ifcFile s),
                    HiderSet False None, HiderSet True (Some (group_items env (finder s)))]) \<and>
         visible s = hider_set env True (Some (group_items env (finder s)))
                       (hider_set env False None (scene_add env (model s)))"
    by (auto simp: startup_def Let_def split: sum.splits option.splits prod.splits)
  moreover have "group_items env (finder s) = [] \<and>
          (\<forall>vis. hider_set env False None vis = {}) \<and>
          (\<forall>vis. hider_set env True (Some []) vis = vis) \<longrightarrow> visible s = {}"
    using calculation by auto
  moreover have "updateFinder env p = (None, p') \<and> group_items env (finder p') = [] \<longrightarrow>
            visible p' = visible p"
    using updateFinder_empty_keeps_visible [of env p p'] by blast
  ultimately show ?thesis
    by blast
qed

theorem startup_isolates_unconditionally_witness:
  "(\<exists>s. startup (demo_env [] []) = Inr s \<and>
        group_items (demo_env [] []) (finder s) = [] \<and>
        scene_add (demo_env [] []) (model s) = {(''wall'', 1), (''slab'', 2)} \<and>
        trace s = [Fetch ifc_url, IfcLoad [0x49, 0x53, 0x4F],
                   GroupUpdate ''m1'' \<lparr>file_bits = [0x49, 0x53, 0x4F], file_name = ''example''\<rparr>,
                   HiderSet False None, HiderSet True (Some [])] \<and>
        visible s = {}) \<and>
   fst (updateFinder (demo_env [] []) (demo_page ''IfcWallStandardCase'' ''yeso'')) = None \<and>
   visible (snd (updateFinder (demo_env [] []) (demo_page ''IfcWallStandardCase'' ''yeso''))) =
     {(''wall'', 1), (''slab'', 2)}"
proof -
  let ?E = "demo_env [] [] :: (FragmentIdMap, query_ref list) env"
  let ?p = "demo_page ''IfcWallStandardCase'' ''yeso''"
  note defs = startup_def demo_env_def Let_def
  note udefs = updateFinder_def demo_env_def demo_page_def RegExp_new_def emit_def Let_def
    Object_keys_def
  obtain s where r: "startup ?E = Inr s"
    by (simp add: defs)
  from r have i: "group_items ?E (finder s) = []"
    and t: "trace s = [Fetch ifc_url, IfcLoad [0x49, 0x53, 0x4F],
                   GroupUpdate ''m1'' \<lparr>file_bits = [0x49, 0x53, 0x4F], file_name = ''example''\<rparr>,
                   HiderSet False None, HiderSet True (Some [])]"
    by (auto simp: defs)
  have a: "scene_add ?E (model s) = {(''wall'', 1), (''slab'', 2)}"
    by (simp add: demo_env_def)
  have h1: "\<forall>vis. hider_set ?E False None vis = {}"
    by (simp add: demo_env_def)
  have h2: "\<forall>vis. hider_set ?E True (Some []) vis = vis"
    by (simp add: demo_env_def elements_of_def)
  define q where "q = snd (updateFinder ?E ?p)"
  have u: "updateFinder ?E ?p = (None, q)"
    unfolding q_def by (simp add: udefs)
  have j: "group_items ?E (finder q) = []"
    unfolding q_def by (simp add: udefs)
  have v: "visible ?p = {(''wall'', 1), (''slab'', 2)}"
    by (simp add: demo_page_def)
  note inst = startup_isolates_unconditionally [OF r, of ?p q]
  from inst i h1 h2 have e: "visible s = {}"
    by blast
  from inst u j have "visible q = visible ?p"
    by blast
  with v have k: "visible (snd (updateFinder ?E ?p)) = {(''wall'', 1), (''slab'', 2)}"
    unfolding q_def by simp
  have f: "fst (updateFinder ?E ?p) = None"
    using u by simp
  from r i a t e have "\<exists>s. startup ?E = Inr s \<and>
        group_items ?E (finder s) = [] \<and>
        scene_add ?E (model s) = {(''wall'', 1), (''slab'', 2)} \<and>
        trace s = [Fetch ifc_url, IfcLoad [0x49, 0x53, 0x4F],
                   GroupUpdate ''m1'' \<lparr>file_bits = [0x49, 0x53, 0x4F], file_name = ''example''\<rparr>,
                   HiderSet False None, HiderSet True (Some [])] \<and>
        visible s = {}"
    by blast
  with f k show ?thesis
    by blast
qed

section \<open>The bytes behind the file\<close>

text \<open>With well-formed patterns the update button calls the evaluator, on the file of the page.\<close>

lemma updateFinder_calls_update:
  assumes "valid_pattern env (categoryInput p)" and "valid_pattern env (propertyInput p)"
  shows "(fst (updateFinder env p), finder (snd (updateFinder env p))) =
           group_update env (uuid (model p)) (ifcFile p)
             (set_rule_value (RegExp (categoryInput p)) (categoryRule p),
              set_rule_value (RegExp (propertyInput p)) (propertyRule p))
             ((finder p)\<lparr>basicQuery := query_clear env (basicQuery (finder p)),
                        propertyQuery := query_clear env (propertyQuery (finder p))\<rparr>)"
  using assms
  by (auto simp: updateFinder_def RegExp_new_def Let_def emit_def
           split: sum.splits option.splits prod.splits if_splits)

lemma updateFinder_keeps:
  "ifcFile (snd (updateFinder env s)) = ifcFile s \<and>
   model (snd (updateFinder env s)) = model s \<and>
   filter is_Fetch (trace (snd (updateFinder env s))) = filter is_Fetch (trace s)"
  by (auto simp: updateFinder_def RegExp_new_def Let_def emit_def
           split: sum.splits option.splits prod.splits if_splits)

lemma handle_keeps:
  "ifcFile (handle env s ev) = ifcFile s \<and>
   model (handle env s ev) = model s \<and>
   filter is_Fetch (trace (handle env s ev)) = filter is_Fetch (trace s)"
proof (cases ev)
  case ClickUpdate
  then show ?thesis using updateFinder_keeps [of env s] by simp
next
  case ClickToggler
  then show ?thesis by (simp add: toggler_click_def)
qed simp_all

lemma foldl_keeps:
  "ifcFile (foldl (handle env) s evs) = ifcFile s \<and>
   model (foldl (handle env) s evs) = model s \<and>
   filter is_Fetch (trace (foldl (handle env) s evs)) = filter is_Fetch (trace s)"
proof (induction evs arbitrary: s)
  case Nil
  show ?case by simp
next
  case (Cons ev evs)
  from Cons [of "handle env s ev"] handle_keeps [of env s ev] show ?case
    by simp
qed

lemma startup_first_update:
  assumes "startup env = Inr s0"
  shows "\<exists>data m data'.
           fetch env ifc_url = Inr data \<and> ifc_load env data = Inr (m, data') \<and>
           model s0 = m \<and>
           ifcFile s0 = \<lparr>file_bits = data', file_name = ''example''\<rparr> \<and>
           filter is_Fetch (trace s0) = [Fetch ifc_url] \<and>
           (None, finder s0) =
             group_update env (uuid m) \<lparr>file_bits = data', file_name = ''example''\<rparr>
               (IfcCategoryRule (RegExp ''IfcWallStandardCase''),
                IfcPropertyRule (RegExp ''.*'') (RegExp ''yeso''))
               \<lparr>basicQuery = \<lparr>kind = IfcBasicQuery, name = ''category'', inclusive = False,
                               rules = [CategoryRule_ref], cache = query_init env\<rparr>,
                propertyQuery = \<lparr>kind = IfcPropertyQuery, name = ''property'',
                                  inclusive = False, rules = [PropertyRule_ref],
                                  cache = query_init env\<rparr>,
                queryGroup = group_add env PropertyQuery_ref
                               (group_add env BasicQuery_ref (finder_create env))\<rparr>"
proof -
  from assms obtain data m data' where f: "fetch env ifc_url = Inr data"
    and l: "ifc_load env data = Inr (m, data')"
    by (auto simp: startup_def split: sum.splits)
  from assms f l have "model s0 = m \<and>
           ifcFile s0 = \<lparr>file_bits = data', file_name = ''example''\<rparr> \<and>
           filter is_Fetch (trace s0) = [Fetch ifc_url] \<and>
           (None, finder s0) =
             group_update env (uuid m) \<lparr>file_bits = data', file_name = ''example''\<rparr>
               (IfcCategoryRule (RegExp ''IfcWallStandardCase''),
                IfcPropertyRule (RegExp ''.*'') (RegExp ''yeso''))
               \<lparr>basicQuery = \<lparr>kind = IfcBasicQuery, name = ''category'', inclusive = False,
                               rules = [CategoryRule_ref], cache = query_init env\<rparr>,
                propertyQuery = \<lparr>kind = IfcPropertyQuery, name = ''property'',
                                  inclusive = False, rules = [PropertyRule_ref],
                                  cache = query_init env\<rparr>,
                queryGroup = group_add env PropertyQuery_ref
                               (group_add env BasicQuery_ref (finder_create env))\<rparr>"
    by (auto simp: startup_def Let_def split: option.splits prod.splits)
  with f l show ?thesis by blast
qed

text \<open>
  Claim C7, as stated, fails: the file is built from \<^verbatim>\<open>data\<close> after \<^verbatim>\<open>load(buffer)\<close>, and
  \<^verbatim>\<open>buffer\<close> is a view of \<^verbatim>\<open>data\<close>. With a loader that overwrites the first byte of its
  buffer the response is \<^verbatim>\<open>49 53 4F\<close>, and the first update and the update of a click on the
  button both receive a file of the bytes \<^verbatim>\<open>58 53 4F\<close>.
\<close>

theorem update_file_after_writing_loader:
  "fetch (recording_env overwrite_first) ifc_url = Inr [0x49, 0x53, 0x4F] \<and>
   files_received (session (recording_env overwrite_first) [ClickUpdate]) =
     [\<lparr>file_bits = [0x58, 0x53, 0x4F], file_name = ''example''\<rparr>,
      \<lparr>file_bits = [0x58, 0x53, 0x4F], file_name = ''example''\<rparr>]"
  by (simp add: files_received_def session_def startup_def updateFinder_def recording_env_def
                RegExp_new_def emit_def Let_def Object_keys_def source_def)

text \<open>
  Claim C7, amended. Whatever the user does after startup: the response was fetched from
  the fixed address, once; the loader was given the bytes of the response, and the model of
  the page is the one it returned; the file of the page wraps the bytes of the buffer as
  the loader left them, which are the bytes of the response whenever the loader only reads
  its buffer; the first \<^verbatim>\<open>queryGroup.update\<close> was applied to that file, and in every state
  the page goes through, the update button applies \<^verbatim>\<open>queryGroup.update\<close> to that file (it
  calls it whenever both patterns are well-formed).
\<close>

theorem update_is_given_buffer_after_load:
  assumes "session env evs = Inr s"
  shows "\<exists>data m data' s0.
           fetch env ifc_url = Inr data \<and>
           ifc_load env data = Inr (m, data') \<and>
           (loader_reads_only env \<longrightarrow> data' = data) \<and>
           startup env = Inr s0 \<and> s = foldl (handle env) s0 evs \<and>
           filter is_Fetch (trace s) = [Fetch ifc_url] \<and>
           (None, finder s0) =
             group_update env (uuid m) \<lparr>file_bits = data', file_name = ''example''\<rparr>
               (IfcCategoryRule (RegExp ''IfcWallStandardCase''),
                IfcPropertyRule (RegExp ''.*'') (RegExp ''yeso''))
               \<lparr>basicQuery = \<lparr>kind = IfcBasicQuery, name = ''category'', inclusive = False,
                               rules = [CategoryRule_ref], cache = query_init env\<rparr>,
                propertyQuery = \<lparr>kind = IfcPropertyQuery, name = ''property'',
                                  inclusive = False, rules = [PropertyRule_ref],
                                  cache = query_init env\<rparr>,
                queryGroup = group_add env PropertyQuery_ref
                               (group_add env BasicQuery_ref (finder_create env))\<rparr> \<and>
           (\<forall>n p. n \<le> length evs \<and> p = foldl (handle env) s0 (take n evs) \<longrightarrow>
              model p = m \<and>
              ifcFile p = \<lparr>file_bits = data', file_name = ''example''\<rparr> \<and>
              (valid_pattern env (categoryInput p) \<and> valid_pattern env (propertyInput p) \<longrightarrow>
                 (fst (updateFinder env p), finder (snd (updateFinder env p))) =
                   group_update env (uuid m) \<lparr>file_bits = data', file_name = ''example''\<rparr>
                     (set_rule_value (RegExp (categoryInput p)) (categoryRule p),
                      set_rule_value (RegExp (propertyInput p)) (propertyRule p))
                     ((finder p)\<lparr>basicQuery := query_clear env (basicQuery (finder p)),
                                propertyQuery := query_clear env (propertyQuery (finder p))\<rparr>)))"
proof -
  from assms obtain s0 where s0: "startup env = Inr s0" and s: "s = foldl (handle env) s0 evs"
    by (auto simp: session_def split: sum.splits)
  from startup_first_update [OF s0] obtain data m data'
    where d: "fetch env ifc_url = Inr data" and l: "ifc_load env data = Inr (m, data')"
      and m0: "model s0 = m"
      and f0: "ifcFile s0 = \<lparr>file_bits = data', file_name = ''example''\<rparr>"
      and t0: "filter is_Fetch (trace s0) = [Fetch ifc_url]"
      and u0: "(None, finder s0) =
             group_update env (uuid m) \<lparr>file_bits = data', file_name = ''example''\<rparr>
               (IfcCategoryRule (RegExp ''IfcWallStandardCase''),
                IfcPropertyRule (RegExp ''.*'') (RegExp ''yeso''))
               \<lparr>basicQuery = \<lparr>kind = IfcBasicQuery, name = ''category'', inclusive = False,
                               rules = [CategoryRule_ref], cache = query_init env\<rparr>,
                propertyQuery = \<lparr>kind = IfcPropertyQuery, name = ''property'',
                                  inclusive = False, rules = [PropertyRule_ref],
                                  cache = query_init env\<rparr>,
                queryGroup = group_add env PropertyQuery_ref
                               (group_add env BasicQuery_ref (finder_create env))\<rparr>"
    by blast
  have ro: "loader_reads_only env \<longrightarrow> data' = data"
    using l unfolding loader_reads_only_def by blast
  have ts: "filter is_Fetch (trace s) = [Fetch ifc_url]"
    unfolding s using foldl_keeps [of env s0 evs] t0 by simp
  have every: "\<forall>n p. n \<le> length evs \<and> p = foldl (handle env) s0 (take n evs) \<longrightarrow>
              model p = m \<and>
              ifcFile p = \<lparr>file_bits = data', file_name = ''example''\<rparr> \<and>
              (valid_pattern env (categoryInput p) \<and> valid_pattern env (propertyInput p) \<longrightarrow>
                 (fst (updateFinder env p), finder (snd (updateFinder env p))) =
                   group_update env (uuid m) \<lparr>file_bits = data', file_name = ''example''\<rparr>
                     (set_rule_value (RegExp (categoryInput p)) (categoryRule p),
                      set_rule_value (RegExp (propertyInput p)) (propertyRule p))
                     ((finder p)\<lparr>basicQuery := query_clear env (basicQuery (finder p)),
                                propertyQuery := query_clear env (propertyQuery (finder p))\<rparr>))"
  proof (intro allI impI, elim conjE)
    fix n p
    assume p: "p = foldl (handle env) s0 (take n evs)"
    from foldl_keeps [of env s0 "take n evs"] m0 f0
    have mp: "model p = m" and fp: "ifcFile p = \<lparr>file_bits = data', file_name = ''example''\<rparr>"
      unfolding p by simp_all
    from updateFinder_calls_update [of env p] mp fp
    show "model p = m \<and>
              ifcFile p = \<lparr>file_bits = data', file_name = ''example''\<rparr> \<and>
              (valid_pattern env (categoryInput p) \<and> valid_pattern env (propertyInput p) \<longrightarrow>
                 (fst (updateFinder env p), finder (snd (updateFinder env p))) =
                   group_update env (uuid m) \<lparr>file_bits = data', file_name = ''example''\<rparr>
                     (set_rule_value (RegExp (categoryInput p)) (categoryRule p),
                      set_rule_value (RegExp (propertyInput p)) (propertyRule p))
                     ((finder p)\<lparr>basicQuery := query_clear env (basicQuery (finder p)),
                                propertyQuery := query_clear env (propertyQuery (finder p))\<rparr>))"
      by simp
  qed
  from d l ro s0 s ts u0 every show ?thesis
    by blast
qed

theorem update_is_given_buffer_after_load_witness:
  "loader_reads_only demo \<and>
   fetch demo ifc_url = Inr [0x49, 0x53, 0x4F] \<and>
   (\<exists>s. session demo [TypeCategory ''IfcDoor'', ClickUpdate, TypeProperty ''madera''] = Inr s \<and>
        valid_pattern demo (categoryInput s) \<and> valid_pattern demo (propertyInput s) \<and>
        filter is_Fetch (trace s) = [Fetch ifc_url] \<and>
        ifcFile s = \<lparr>file_bits = [0x49, 0x53, 0x4F], file_name = ''example''\<rparr> \<and>
        (fst (updateFinder demo s), finder (snd (updateFinder demo s))) =
          group_update demo ''m1'' \<lparr>file_bits = [0x49, 0x53, 0x4F], file_name = ''example''\<rparr>
            (IfcCategoryRule (RegExp ''IfcDoor''), IfcPropertyRule (RegExp ''.*'') (RegExp ''madera''))
            ((finder s)\<lparr>basicQuery := query_clear demo (basicQuery (finder s)),
                       propertyQuery := query_clear demo (propertyQuery (finder s))\<rparr>))"
proof -
  let ?evs = "[TypeCategory ''IfcDoor'', ClickUpdate, TypeProperty ''madera'']"
  note defs = session_def startup_def updateFinder_def demo_env_def RegExp_new_def emit_def
    Let_def Object_keys_def source_def
  have ro: "loader_reads_only demo"
    by (auto simp: loader_reads_only_def demo_env_def)
  have d: "fetch demo ifc_url = Inr [0x49, 0x53, 0x4F]"
    by (simp add: demo_env_def)
  have u: "uuid m = ''m1''" if "ifc_load demo bs = Inr (m, bs')" for bs m bs'
    using that by (auto simp: demo_env_def)
  obtain s where r: "session demo ?evs = Inr s"
    by (simp add: defs)
  from r have c: "categoryInput s = ''IfcDoor''" "propertyInput s = ''madera''"
    "categoryRule s = IfcCategoryRule (RegExp ''IfcDoor'')"
    "propertyRule s = IfcPropertyRule (RegExp ''.*'') (RegExp ''yeso'')"
    by (auto simp: defs)
  have v: "valid_pattern demo (categoryInput s)" "valid_pattern demo (propertyInput s)"
    unfolding c by (simp_all add: demo_env_def)
  from update_is_given_buffer_after_load [OF r] obtain data m data' s0
    where f: "fetch demo ifc_url = Inr data"
      and l: "ifc_load demo data = Inr (m, data')"
      and same: "loader_reads_only demo \<longrightarrow> data' = data"
      and s0: "s = foldl (handle demo) s0 ?evs"
      and t: "filter is_Fetch (trace s) = [Fetch ifc_url]"
      and every: "\<forall>n p. n \<le> length ?evs \<and> p = foldl (handle demo) s0 (take n ?evs) \<longrightarrow>
              model p = m \<and>
              ifcFile p = \<lparr>file_bits = data', file_name = ''example''\<rparr> \<and>
              (valid_pattern demo (categoryInput p) \<and> valid_pattern demo (propertyInput p) \<longrightarrow>
                 (fst (updateFinder demo p), finder (snd (updateFinder demo p))) =
                   group_update demo (uuid m) \<lparr>file_bits = data', file_name = ''example''\<rparr>
                     (set_rule_value (RegExp (categoryInput p)) (categoryRule p),
                      set_rule_value (RegExp (propertyInput p)) (propertyRule p))
                     ((finder p)\<lparr>basicQuery := query_clear demo (basicQuery (finder p)),
                                propertyQuery := query_clear demo (propertyQuery (finder p))\<rparr>))"
    by blast
  from f d have data: "data = [0x49, 0x53, 0x4F]"
    by simp
  from same ro data have data': "data' = [0x49, 0x53, 0x4F]"
    by simp
  have "length ?evs \<le> length ?evs \<and> s = foldl (handle demo) s0 (take (length ?evs) ?evs)"
    using s0 by simp
  with every have "ifcFile s = \<lparr>file_bits = data', file_name = ''example''\<rparr> \<and>
              (valid_pattern demo (categoryInput s) \<and> valid_pattern demo (propertyInput s) \<longrightarrow>
                 (fst (updateFinder demo s), finder (snd (updateFinder demo s))) =
                   group_update demo (uuid m) \<lparr>file_bits = data', file_name = ''example''\<rparr>
                     (set_rule_value (RegExp (categoryInput s)) (categoryRule s),
                      set_rule_value (RegExp (propertyInput s)) (propertyRule s))
                     ((finder s)\<lparr>basicQuery := query_clear demo (basicQuery (finder s)),
                                propertyQuery := query_clear demo (propertyQuery (finder s))\<rparr>))"
    by blast
  with v have fs: "ifcFile s = \<lparr>file_bits = [0x49, 0x53, 0x4F], file_name = ''example''\<rparr>"
    and us: "(fst (updateFinder demo s), finder (snd (updateFinder demo s))) =
          group_update demo ''m1'' \<lparr>file_bits = [0x49, 0x53, 0x4F], file_name = ''example''\<rparr>
            (IfcCategoryRule (RegExp ''IfcDoor''), IfcPropertyRule (RegExp ''.*'') (RegExp ''madera''))
            ((finder s)\<lparr>basicQuery := query_clear demo (basicQuery (finder s)),
                       propertyQuery := query_clear demo (propertyQuery (finder s))\<rparr>)"
    unfolding data' u [OF l] c by simp_all
  from ro d r v t fs us show ?thesis
    by blast
qed

end
